theory Spec2Isabelle
  imports Main
begin

section \<open>Strings\<close>

text \<open>
  A Python string is modelled as a HOL string whose characters are the Unicode code
  points below 256, the range a HOL character holds. On these, \<open>str.lower\<close> works
  character by character: the cased letters with a lower-case partner are \<open>A\<close>..\<open>Z\<close>
  (65..90) and the Latin-1 capitals 192..214 and 216..222, and each goes to its code plus
  32; every other character stays.
\<close>

definition lower_char :: "char \<Rightarrow> char" where
  "lower_char c =
     (let n = (of_char c :: nat)
      in if (65 \<le> n \<and> n \<le> 90) \<or> (192 \<le> n \<and> n \<le> 214) \<or> (216 \<le> n \<and> n \<le> 222)
         then char_of (n + 32) else c)"

definition lower :: "string \<Rightarrow> string" where
  "lower s = map lower_char s"

text \<open>\<open>sub in s\<close> on strings: \<open>sub\<close> occurs in \<open>s\<close> as a contiguous run.\<close>

fun startswith :: "string \<Rightarrow> string \<Rightarrow> bool" where
  "startswith s [] = True"
| "startswith [] (c # sub) = False"
| "startswith (d # s) (c # sub) = (d = c \<and> startswith s sub)"

fun contains :: "string \<Rightarrow> string \<Rightarrow> bool" where
  "contains [] sub = (sub = [])"
| "contains (d # s) sub = (startswith (d # s) sub \<or> contains s sub)"

section \<open>Data model\<close>

text \<open>
  A \<open>datetime.date\<close> is represented by its proleptic Gregorian ordinal, so that
  \<open>(a - b).days\<close> is the integer difference and \<open>isoformat\<close>/\<open>strptime\<close> of a stored
  date are the identity.
\<close>

type_synonym date = int

text \<open>\<open>models.Product\<close>: only \<open>name\<close> is required, every other field defaults to \<open>None\<close>.\<close>

record product =
  name :: string
  quantity :: "string option"
  unit :: "string option"
  category :: "string option"
  purchase_date :: "date option"
  expiry_date :: "date option"

definition Product :: "string \<Rightarrow> product" where
  "Product n = \<lparr>name = n, quantity = None, unit = None, category = None,
                 purchase_date = None, expiry_date = None\<rparr>"

text \<open>
  The exceptions the operations meet. \<open>JSONDecodeError\<close> is a subclass of \<open>ValueError\<close>;
  \<open>ValueError\<close> here stands for a \<open>ValueError\<close> that is no \<open>JSONDecodeError\<close>, so that a
  handler for \<open>JSONDecodeError\<close> does not catch it.
\<close>

datatype error =
  FileNotFoundError | JSONDecodeError | ValueError | TypeError | KeyError | AttributeError
  | ValidationError

text \<open>
  A value of the purchase-history map as \<open>json.load\<close> delivers it. The data model has the
  object \<open>{"last_purchase_date": "YYYY-MM-DD"}\<close>, here \<open>Dated d\<close> with the date the string
  denotes; a file can also hold an object whose date string \<open>strptime\<close> rejects, one whose
  member is no string, one without the member, or a value that is no object. Other
  members of the object are not modelled.
\<close>

datatype hvalue = Dated date | BadDate | NonStringDate | NoDate | NotAnObject

text \<open>\<open>datetime.datetime.strptime(v['last_purchase_date'], '%Y-%m-%d').date()\<close>\<close>

definition last_purchase_date :: "hvalue \<Rightarrow> error + date" where
  "last_purchase_date v =
     (case v of
        Dated d \<Rightarrow> Inr d
      | BadDate \<Rightarrow> Inl ValueError
      | NonStringDate \<Rightarrow> Inl TypeError
      | NoDate \<Rightarrow> Inl KeyError
      | NotAnObject \<Rightarrow> Inl TypeError)"

text \<open>
  A Python \<open>dict\<close> is an association list in insertion order. \<open>d[k] = v\<close> replaces the
  value of an existing key in place and appends a new key at the end.
\<close>

type_synonym ('k, 'v) dict = "('k \<times> 'v) list"

fun dict_set :: "('k, 'v) dict \<Rightarrow> 'k \<Rightarrow> 'v \<Rightarrow> ('k, 'v) dict" where
  "dict_set [] k v = [(k, v)]"
| "dict_set ((k', v') # d) k v =
     (if k' = k then (k, v) # d else (k', v') # dict_set d k v)"

definition dict_get :: "('k, 'v) dict \<Rightarrow> 'k \<Rightarrow> 'v option" where
  "dict_get d k = map_of d k"

section \<open>Record store\<close>

text \<open>
  What \<open>open(path, 'r')\<close> followed by \<open>json.load\<close> finds at a path: nothing, text that is
  not JSON, or the decoded value.
\<close>

datatype 'a file_content = Absent | Corrupt | Json 'a

text \<open>
  The decoded value of the history file: an object, as a \<open>dict\<close> of its members, or any
  other JSON value (which has no \<open>items()\<close>).
\<close>

datatype history_json = HObject "(string, hvalue) dict" | HOther

text \<open>
  The decoded value of the grocery-list file. An element of an array is an object that
  \<open>Product(**item_data)\<close> accepts, with the product it builds; an object it rejects with a
  \<open>ValidationError\<close> (no \<open>name\<close>, a field of the wrong type); or a value that is no object,
  where \<open>**\<close> raises \<open>TypeError\<close>. A value that is no array is either one the comprehension
  iterates without a step (the empty object, the empty string), or one where it raises
  \<open>TypeError\<close> (a number, a boolean, \<open>null\<close>, a non-empty object or string).
\<close>

datatype item_json = ItemObject product | ItemInvalid | ItemNotObject

datatype list_json = LArray "item_json list" | LEmpty | LOther

text \<open>
  A \<open>for\<close> loop whose body may raise: the loop ends at the first exception, which
  propagates.
\<close>

fun for_each :: "('s \<Rightarrow> 'a \<Rightarrow> error + 's) \<Rightarrow> 's \<Rightarrow> 'a list \<Rightarrow> error + 's" where
  "for_each body s [] = Inr s"
| "for_each body s (x # xs) =
     (case body s x of Inl e \<Rightarrow> Inl e | Inr s' \<Rightarrow> for_each body s' xs)"

datatype file_id = PurchaseHistoryFile | GroceryListFile | CategoriesFile

definition json_load :: "'a file_content \<Rightarrow> error + 'a" where
  "json_load f =
     (case f of Absent \<Rightarrow> Inl FileNotFoundError
              | Corrupt \<Rightarrow> Inl JSONDecodeError
              | Json v \<Rightarrow> Inr v)"

text \<open>
  The \<open>GroceryAssistant\<close> object together with the three files it reads and writes. The
  \<open>*_file\<close> fields hold the content found at the respective path; \<open>written\<close> logs every
  \<open>open(path, 'w')\<close> in order.
\<close>

record assistant =
  items :: "product list"
  purchase_history :: "(string, hvalue) dict"
  categories :: "(string, string list) dict"
  purchase_history_file :: "history_json file_content"
  grocery_list_file :: "list_json file_content"
  categories_file :: "(string, string list) dict file_content"
  written :: "file_id list"

text \<open>
  The loop body of \<open>load_purchase_history\<close>, one raw \<open>(key, value)\<close> pair. On a key seen
  before, both dates are parsed, the existing one first; the later date is stored into the
  existing object.
\<close>

definition normalize_step ::
  "(string, hvalue) dict \<Rightarrow> string \<times> hvalue \<Rightarrow> error + (string, hvalue) dict" where
  "normalize_step normalized_history kv =
     (let lower_key = lower (fst kv); v = snd kv in
      case dict_get normalized_history lower_key of
        Some existing \<Rightarrow>
          (case last_purchase_date existing of
             Inl e \<Rightarrow> Inl e
           | Inr existing_date \<Rightarrow>
               (case last_purchase_date v of
                  Inl e \<Rightarrow> Inl e
                | Inr new_date \<Rightarrow>
                    if new_date > existing_date
                    then Inr (dict_set normalized_history lower_key (Dated new_date))
                    else Inr normalized_history))
      | None \<Rightarrow> Inr (dict_set normalized_history lower_key v))"

text \<open>
  \<open>except (FileNotFoundError, json.JSONDecodeError)\<close>: these two give the empty map, any
  other exception leaves the function.
\<close>

definition load_purchase_history ::
  "assistant \<Rightarrow> (error + (string, hvalue) dict) \<times> assistant" where
  "load_purchase_history st =
     (case json_load (purchase_history_file st) of
        Inr (HObject history) \<Rightarrow>
          (case for_each normalize_step [] history of
             Inl e \<Rightarrow> (Inl e, st)
           | Inr normalized_history \<Rightarrow>
               (Inr normalized_history,
                st\<lparr>purchase_history_file := Json (HObject normalized_history),
                   written := written st @ [PurchaseHistoryFile]\<rparr>))
      | Inr HOther \<Rightarrow> (Inl AttributeError, st)
      | Inl e \<Rightarrow>
          if e = FileNotFoundError \<or> e = JSONDecodeError then (Inr [], st) else (Inl e, st))"

text \<open>\<open>except FileNotFoundError\<close> only.\<close>

definition load_categories ::
  "assistant \<Rightarrow> (error + (string, string list) dict) \<times> assistant" where
  "load_categories st =
     (case json_load (categories_file st) of
        Inr c \<Rightarrow> (Inr c, st)
      | Inl e \<Rightarrow> if e = FileNotFoundError then (Inr [], st) else (Inl e, st))"

text \<open>\<open>[Product(**item_data) for item_data in data]\<close> on an array.\<close>

fun products_of :: "item_json list \<Rightarrow> error + product list" where
  "products_of [] = Inr []"
| "products_of (ItemObject p # xs) =
     (case products_of xs of Inl e \<Rightarrow> Inl e | Inr ps \<Rightarrow> Inr (p # ps))"
| "products_of (ItemInvalid # xs) = Inl ValidationError"
| "products_of (ItemNotObject # xs) = Inl TypeError"

definition load_grocery_list :: "assistant \<Rightarrow> (error + unit) \<times> assistant" where
  "load_grocery_list st =
     (case json_load (grocery_list_file st) of
        Inr (LArray data) \<Rightarrow>
          (case products_of data of
             Inl e \<Rightarrow> (Inl e, st)
           | Inr ps \<Rightarrow> (Inr (), st\<lparr>items := ps\<rparr>))
      | Inr LEmpty \<Rightarrow> (Inr (), st\<lparr>items := []\<rparr>)
      | Inr LOther \<Rightarrow> (Inl TypeError, st)
      | Inl e \<Rightarrow>
          if e = FileNotFoundError \<or> e = JSONDecodeError then (Inr (), st\<lparr>items := []\<rparr>)
          else (Inl e, st))"

definition save_grocery_list :: "assistant \<Rightarrow> assistant" where
  "save_grocery_list st =
     st\<lparr>grocery_list_file := Json (LArray (map ItemObject (items st))),
        written := written st @ [GroceryListFile]\<rparr>"

section \<open>List manager\<close>

definition add_item_to_list :: "product \<Rightarrow> assistant \<Rightarrow> product \<times> assistant" where
  "add_item_to_list item st = (item, save_grocery_list (st\<lparr>items := items st @ [item]\<rparr>))"

definition remove_item_from_list :: "string \<Rightarrow> assistant \<Rightarrow> bool \<times> assistant" where
  "remove_item_from_list item_name st =
     (let initial_count = length (items st);
          st1 = st\<lparr>items := filter (\<lambda>item. lower (name item) \<noteq> lower item_name) (items st)\<rparr>
      in if length (items st1) < initial_count
         then (True, save_grocery_list st1)
         else (False, st1))"

definition get_grocery_list :: "assistant \<Rightarrow> product list" where
  "get_grocery_list st = items st"

section \<open>Suggestion engine\<close>

text \<open>
  \<open>today\<close> stands for \<open>datetime.date.today()\<close>. The loop of \<open>suggest_missing_items\<close>
  carries \<open>suggestions\<close> and the set \<open>processed_items\<close>.
\<close>

definition missing_message :: "string \<Rightarrow> string" where
  "missing_message item_name = ''You bought '' @ item_name @ '' a last week, consider adding it.''"

definition missing_step ::
  "date \<Rightarrow> string set \<Rightarrow> string list \<times> string set \<Rightarrow> string \<times> hvalue
     \<Rightarrow> error + string list \<times> string set" where
  "missing_step today current_list_lower acc kv =
     (let suggestions = fst acc; processed_items = snd acc;
          item_name = fst kv; data = snd kv;
          item_name_lower = lower item_name in
      if item_name_lower \<in> processed_items then Inr (suggestions, processed_items)
      else
        (let processed_items = insert item_name_lower processed_items in
         if item_name_lower \<notin> current_list_lower
         then (case last_purchase_date data of
                 Inl e \<Rightarrow> Inl e
               | Inr last_purchase \<Rightarrow>
                   if today - last_purchase > 7
                   then Inr (suggestions @ [missing_message item_name], processed_items)
                   else Inr (suggestions, processed_items))
         else Inr (suggestions, processed_items)))"

definition suggest_missing_items :: "date \<Rightarrow> assistant \<Rightarrow> error + string list" where
  "suggest_missing_items today st =
     (let current_list_lower = set (map (\<lambda>item. lower (name item)) (items st)) in
      case for_each (missing_step today current_list_lower) ([], {}) (purchase_history st) of
        Inl e \<Rightarrow> Inl e
      | Inr acc \<Rightarrow> Inr (fst acc))"

definition healthier_alternatives :: "(string, string) dict" where
  "healthier_alternatives =
     [(''white bread'', ''brown bread''),
      (''soda'', ''water''),
      (''chips'', ''nuts''),
      (''white rice'', ''brown rice''),
      (''regular milk'', ''almond milk''),
      (''butter'', ''olive oil''),
      (''ice cream'', ''greek yogurt''),
      (''cookies'', ''whole grain oats''),
      (''candy'', ''fresh fruit'')]"

definition healthier_step :: "string list \<Rightarrow> product \<Rightarrow> string list" where
  "healthier_step suggestions item =
     (case dict_get healthier_alternatives (lower (name item)) of
        Some suggestion \<Rightarrow>
          suggestions @ [''Instead of '' @ name item @ '', consider '' @ suggestion
                         @ '' as a healthier alternative.'']
      | None \<Rightarrow> suggestions)"

definition suggest_healthier_alternatives :: "assistant \<Rightarrow> string list" where
  "suggest_healthier_alternatives st = foldl healthier_step [] (items st)"

text \<open>\<open>str\<close> of an integer, as an f-string prints it.\<close>

fun str_nat :: "nat \<Rightarrow> string" where
  "str_nat n = (if n < 10 then [char_of (48 + n)]
                else str_nat (n div 10) @ [char_of (48 + n mod 10)])"

declare str_nat.simps [simp del]

definition str_int :: "int \<Rightarrow> string" where
  "str_int i = (if i < 0 then ''-'' @ str_nat (nat (- i)) else str_nat (nat i))"

definition reminder_message :: "string \<Rightarrow> int \<Rightarrow> string" where
  "reminder_message item_name time_to_expiry =
     ''Reminder: '' @ item_name @ '' is expiring in '' @ str_int time_to_expiry @ '' days.''"

definition reminder_step :: "date \<Rightarrow> string list \<Rightarrow> product \<Rightarrow> string list" where
  "reminder_step today reminders item =
     (case expiry_date item of
        Some expiry \<Rightarrow>
          (let time_to_expiry = expiry - today in
           if 1 \<le> time_to_expiry \<and> time_to_expiry \<le> 5
           then reminders @ [reminder_message (name item) time_to_expiry]
           else reminders)
      | None \<Rightarrow> reminders)"

definition get_expiry_reminders :: "date \<Rightarrow> assistant \<Rightarrow> string list" where
  "get_expiry_reminders today st = foldl (reminder_step today) [] (items st)"

section \<open>Purchase closer\<close>

definition purchase_step ::
  "date \<Rightarrow> (string, hvalue) dict \<Rightarrow> product \<Rightarrow> (string, hvalue) dict" where
  "purchase_step today_str history item =
     dict_set history (lower (name item)) (Dated today_str)"

definition mark_items_as_purchased :: "date \<Rightarrow> assistant \<Rightarrow> string \<times> assistant" where
  "mark_items_as_purchased today st =
     (let today_str = today;
          st1 = st\<lparr>purchase_history := foldl (purchase_step today_str) (purchase_history st) (items st)\<rparr>;
          st2 = st1\<lparr>purchase_history_file := Json (HObject (purchase_history st1)),
                    written := written st1 @ [PurchaseHistoryFile]\<rparr>;
          st3 = save_grocery_list (st2\<lparr>items := []\<rparr>)
      in (''Purchase history updated and grocery list cleared.'', st3))"

section \<open>Chat dispatcher\<close>

text \<open>
  \<open>str.strip()\<close> drops the whitespace at both ends; \<open>str.isspace\<close> holds of the code
  points 9..13, 28..32, 133 and 160 among those below 256.
\<close>

definition isspace :: "char \<Rightarrow> bool" where
  "isspace c = ((of_char c :: nat) \<in> {9, 10, 11, 12, 13, 28, 29, 30, 31, 32, 133, 160})"

definition strip :: "string \<Rightarrow> string" where
  "strip s = rev (dropWhile isspace (rev (dropWhile isspace s)))"

text \<open>\<open>sep.join(xs)\<close>\<close>

fun join :: "string \<Rightarrow> string list \<Rightarrow> string" where
  "join sep [] = []"
| "join sep [x] = x"
| "join sep (x # y # ys) = x @ sep @ join sep (y # ys)"

text \<open>\<open>a or b\<close> where \<open>a\<close> is an optional string: \<open>None\<close> and the empty string are falsy.\<close>

definition str_or :: "string option \<Rightarrow> string \<Rightarrow> string" where
  "str_or a b = (case a of None \<Rightarrow> b | Some s \<Rightarrow> if s = [] then b else s)"

text \<open>An optional string as an f-string prints it.\<close>

definition str_opt :: "string option \<Rightarrow> string" where
  "str_opt a = (case a of None \<Rightarrow> ''None'' | Some s \<Rightarrow> s)"

text \<open>
  The named groups of a successful \<open>re.search\<close> with the pattern of \<open>_handle_add\<close>. The
  two regular-expression searches are library calls; the handlers take them as the
  parameters \<open>re_add\<close> and \<open>re_remove\<close> (the latter yields the group \<open>name\<close>).
\<close>

record add_match =
  group_quantity :: "string option"
  group_unit :: "string option"
  group_name :: string
  group_category :: "string option"

type_synonym reply = "string \<times> bool"

definition handle_add ::
  "(string \<Rightarrow> add_match option) \<Rightarrow> string \<Rightarrow> assistant \<Rightarrow> reply \<times> assistant" where
  "handle_add re_add message st =
     (case re_add message of
        None \<Rightarrow>
          ((''I'm sorry, I couldn't figure out what to add. Please use the format: ''
            @ [CHR 0x27] @ ''add [quantity] [unit] of [item name] to [category]'' @ [CHR 0x27],
            False), st)
      | Some m \<Rightarrow>
          (let item_name = strip (group_name m);
               unit_str = str_or (group_unit m) ''pcs'';
               category_opt = group_category m;
               new_product = (Product item_name)\<lparr>unit := Some unit_str, category := category_opt\<rparr>;
               st' = snd (add_item_to_list new_product st)
           in ((''I've added '' @ item_name @ '' to your list.'', True), st')))"

definition handle_remove ::
  "(string \<Rightarrow> string option) \<Rightarrow> string \<Rightarrow> assistant \<Rightarrow> reply \<times> assistant" where
  "handle_remove re_remove message st =
     (case re_remove message of
        None \<Rightarrow>
          ((''I'm sorry, I couldn't figure out what to remove. Please use the format: ''
            @ [CHR 0x27] @ ''remove [item name]'' @ [CHR 0x27], False), st)
      | Some g \<Rightarrow>
          (let item_name = strip g;
               r = remove_item_from_list item_name st
           in if fst r
              then ((''I've removed '' @ item_name @ '' from your list.'', True), snd r)
              else ((''I couldn't find '' @ item_name @ '' in your list.'', False), snd r)))"

definition handle_expiring :: "date \<Rightarrow> string \<Rightarrow> assistant \<Rightarrow> reply \<times> assistant" where
  "handle_expiring today message st =
     (let reminders = get_expiry_reminders today st in
      if reminders \<noteq> []
      then ((''Here are the items that are expiring soon:\<newline>'' @ join ''\<newline>'' reminders, False), st)
      else ((''You have no items expiring soon.'', False), st))"

definition handle_suggestions ::
  "date \<Rightarrow> string \<Rightarrow> assistant \<Rightarrow> error + reply \<times> assistant" where
  "handle_suggestions today message st =
     (case suggest_missing_items today st of
        Inl e \<Rightarrow> Inl e
      | Inr missing \<Rightarrow>
          (let healthier = suggest_healthier_alternatives st;
               suggestions = [];
               suggestions = (if missing \<noteq> []
                              then suggestions @ [''Missing items:\<newline>'' @ join ''\<newline>'' missing]
                              else suggestions);
               suggestions = (if healthier \<noteq> []
                              then suggestions
                                   @ [''Healthier alternatives:\<newline>'' @ join ''\<newline>'' healthier]
                              else suggestions)
           in if suggestions \<noteq> []
              then Inr ((join ''\<newline>\<newline>'' suggestions, False), st)
              else Inr ((''I have no suggestions for you right now.'', False), st)))"

definition list_line :: "string \<Rightarrow> product \<Rightarrow> string" where
  "list_line list_str item =
     (let list_str = list_str @ ''- '' @ name item @ '' ('' @ str_opt (unit item);
          list_str = (case category item of
                        None \<Rightarrow> list_str
                      | Some c \<Rightarrow> if c = [] then list_str else list_str @ '', '' @ c)
      in list_str @ '')\<newline>'')"

definition get_list :: "assistant \<Rightarrow> string" where
  "get_list st =
     (if items st = [] then ''Your grocery list is empty.''
      else foldl list_line ''Here's your grocery list:\<newline>'' (items st))"

definition handle_list :: "string \<Rightarrow> assistant \<Rightarrow> reply \<times> assistant" where
  "handle_list message st = ((get_list st, False), st)"

definition handle_clear :: "date \<Rightarrow> string \<Rightarrow> assistant \<Rightarrow> reply \<times> assistant" where
  "handle_clear today message st =
     ((''I've cleared your grocery list and updated your purchase history.'', True),
      snd (mark_items_as_purchased today st))"

definition handle_purchase :: "date \<Rightarrow> string \<Rightarrow> assistant \<Rightarrow> reply \<times> assistant" where
  "handle_purchase today message st =
     ((''I've marked all items as purchased and updated your purchase history.'', True),
      snd (mark_items_as_purchased today st))"

text \<open>
  The \<open>if\<close>/\<open>elif\<close> chain of \<open>get_reply\<close>. Its conditions read only the lower-cased
  message, so the chain is split into the choice of the branch and the run of the
  chosen branch. Only the suggestions handler can raise (on a history value without a
  readable date); \<open>get_reply\<close> passes the exception on.
\<close>

datatype branch =
  BAdd | BRemove | BExpiring | BSuggestions | BList | BClear | BPurchase | BGreeting | BNone

definition select_branch :: "string \<Rightarrow> branch" where
  "select_branch message =
     (if contains message ''add'' then BAdd
      else if contains message ''remove'' then BRemove
      else if contains message ''expiring'' then BExpiring
      else if contains message ''suggestions'' then BSuggestions
      else if contains message ''list'' \<or> contains message ''show list'' then BList
      else if contains message ''clear list'' then BClear
      else if contains message ''purchase'' then BPurchase
      else if contains message ''hello'' \<or> contains message ''hi'' then BGreeting
      else BNone)"

definition get_reply ::
  "date \<Rightarrow> (string \<Rightarrow> add_match option) \<Rightarrow> (string \<Rightarrow> string option)
     \<Rightarrow> string \<Rightarrow> assistant \<Rightarrow> error + reply \<times> assistant" where
  "get_reply today re_add re_remove message0 st =
     (let message = lower message0;
          reply = ''Sorry, I don't understand.'';
          refresh = False
      in case select_branch message of
           BAdd \<Rightarrow> Inr (handle_add re_add message st)
         | BRemove \<Rightarrow> Inr (handle_remove re_remove message st)
         | BExpiring \<Rightarrow> Inr (handle_expiring today message st)
         | BSuggestions \<Rightarrow> handle_suggestions today message st
         | BList \<Rightarrow> Inr (handle_list message st)
         | BClear \<Rightarrow> Inr (handle_clear today message st)
         | BPurchase \<Rightarrow> Inr (handle_purchase today message st)
         | BGreeting \<Rightarrow>
             Inr ((''Hello! How can I help you with your groceries today?'', refresh), st)
         | BNone \<Rightarrow> Inr ((reply, refresh), st))"

section \<open>Specification-side notions\<close>

text \<open>
  The dispatch order as the specification words it: a table of keyword groups in fixed
  priority, searched for the first row with a keyword that occurs in the message.
\<close>

definition spec_priority :: "(string list \<times> branch) list" where
  "spec_priority =
     [([''add''], BAdd),
      ([''remove''], BRemove),
      ([''expiring''], BExpiring),
      ([''suggestions''], BSuggestions),
      ([''list'', ''show list''], BList),
      ([''clear list''], BClear),
      ([''purchase''], BPurchase),
      ([''hello'', ''hi''], BGreeting)]"

definition first_match :: "(string list \<times> branch) list \<Rightarrow> string \<Rightarrow> branch" where
  "first_match table message =
     (case find (\<lambda>row. list_ex (contains message) (fst row)) table of
        None \<Rightarrow> BNone
      | Some row \<Rightarrow> snd row)"

text \<open>
  The history entries that are the first of their lower-cased name, given the names
  \<open>seen\<close> so far: the entries a once-per-name pass looks at.
\<close>

fun first_seen :: "string set \<Rightarrow> (string, 'v) dict \<Rightarrow> (string, 'v) dict" where
  "first_seen seen [] = []"
| "first_seen seen (kv # h) =
     (if lower (fst kv) \<in> seen then first_seen seen h
      else kv # first_seen (insert (lower (fst kv)) seen) h)"

text \<open>
  The invariant of the data model on a purchase history: keys are pairwise different and
  lower-cased.
\<close>

definition normalized :: "(string, 'v) dict \<Rightarrow> bool" where
  "normalized h = (distinct (map fst h) \<and> map (\<lambda>kv. lower (fst kv)) h = map fst h)"

text \<open>
  One history value is not later than another: they are the same value, or both are
  dated and the first date is not after the second.
\<close>

definition not_later :: "hvalue \<Rightarrow> hvalue \<Rightarrow> bool" where
  "not_later a b =
     (a = b \<or> (case a of Dated d \<Rightarrow> (case b of Dated d' \<Rightarrow> d \<le> d' | _ \<Rightarrow> False) | _ \<Rightarrow> False))"

text \<open>Every value of a history is an entry of the data model, with a date.\<close>

definition all_dated :: "(string, hvalue) dict \<Rightarrow> bool" where
  "all_dated h = list_all (\<lambda>kv. case snd kv of Dated d \<Rightarrow> True | _ \<Rightarrow> False) h"

section \<open>Example states\<close>

definition st_empty :: assistant where
  "st_empty = \<lparr>items = [], purchase_history = [], categories = [],
     purchase_history_file = Absent, grocery_list_file = Absent, categories_file = Absent,
     written = []\<rparr>"

text \<open>
  Code point 201 (\<open>0xC9\<close>) is the capital E with acute accent, 233 (\<open>0xE9\<close>) the small
  one.
\<close>

definition st_milk :: assistant where
  "st_milk = st_empty\<lparr>items := [Product ''Milk'', Product ''Eggs'', Product ''MILK'',
                                  Product (CHR 0xC9 # ''CLAIR'')]\<rparr>"

definition raw_history :: "(string, hvalue) dict" where
  "raw_history = [(''Milk'', Dated 10),
                  (''Eggs'', Dated 5),
                  (CHR 0xC9 # ''clair'', Dated 7),
                  (''milk'', Dated 20),
                  (CHR 0xE9 # ''CLAIR'', Dated 3)]"

definition st_raw :: assistant where
  "st_raw = st_empty\<lparr>purchase_history_file := Json (HObject raw_history)\<rparr>"

definition st_bought :: assistant where
  "st_bought = st_empty\<lparr>items := [Product ''Eggs'', Product (CHR 0xC9 # ''CLAIR'')],
     purchase_history := [(''milk'', Dated 92),
                          (''eggs'', Dated 80),
                          (''rice'', Dated 93),
                          (CHR 0xE9 # ''clair'', Dated 50)]\<rparr>"

definition no_unit_match :: "string \<Rightarrow> add_match option" where
  "no_unit_match message =
     Some \<lparr>group_quantity = None, group_unit = None, group_name = ''milk'',
           group_category = None\<rparr>"

definition no_name_match :: "string \<Rightarrow> string option" where
  "no_name_match message = None"

section \<open>Auxiliary facts\<close>

subsection \<open>Strings\<close>

lemma lower_char_idem: "lower_char (lower_char c) = lower_char c"
  by (auto simp: lower_char_def Let_def)

lemma lower_idem: "lower (lower s) = lower s"
  by (simp add: lower_def lower_char_idem)

lemma lower_append: "lower (s @ t) = lower s @ lower t"
  by (simp add: lower_def)

lemma startswith_iff: "startswith s sub \<longleftrightarrow> (\<exists>ss. s = sub @ ss)"
  by (induction s sub rule: startswith.induct) auto

lemma contains_iff: "contains s sub \<longleftrightarrow> (\<exists>ps ss. s = ps @ sub @ ss)"
proof (induction s)
  case Nil
  then show ?case by auto
next
  case (Cons d s)
  show ?case
  proof
    assume "contains (d # s) sub"
    then consider "startswith (d # s) sub" | "contains s sub" by auto
    then show "\<exists>ps ss. d # s = ps @ sub @ ss"
    proof cases
      case 1
      then obtain ss where "d # s = sub @ ss" using startswith_iff by blast
      then have "d # s = [] @ sub @ ss" by simp
      then show ?thesis by blast
    next
      case 2
      then obtain ps ss where "s = ps @ sub @ ss" using Cons.IH by blast
      then have "d # s = (d # ps) @ sub @ ss" by simp
      then show ?thesis by blast
    qed
  next
    assume "\<exists>ps ss. d # s = ps @ sub @ ss"
    then obtain ps ss where e: "d # s = ps @ sub @ ss" by blast
    show "contains (d # s) sub"
    proof (cases ps)
      case Nil
      with e have "startswith (d # s) sub" using startswith_iff by auto
      then show ?thesis by simp
    next
      case (Cons p ps')
      with e have "s = ps' @ sub @ ss" by simp
      then have "contains s sub" using Cons.IH by blast
      then show ?thesis by simp
    qed
  qed
qed

lemma contains_lower: "contains s sub \<Longrightarrow> contains (lower s) (lower sub)"
proof -
  assume "contains s sub"
  then obtain ps ss where "s = ps @ sub @ ss" using contains_iff by blast
  then have "lower s = lower ps @ lower sub @ lower ss" by (simp add: lower_append)
  then show ?thesis using contains_iff by blast
qed

lemma contains_clear_list: "contains s ''clear list'' \<Longrightarrow> contains s ''list''"
proof -
  assume "contains s ''clear list''"
  then obtain ps ss where "s = ps @ ''clear list'' @ ss" using contains_iff by blast
  then have "s = (ps @ ''clear '') @ ''list'' @ ss" by simp
  then show ?thesis using contains_iff by blast
qed

subsection \<open>Dictionaries\<close>

lemma map_of_dict_set: "map_of (dict_set d k v) = (map_of d)(k \<mapsto> v)"
  by (induction d k v rule: dict_set.induct) auto

lemma dict_get_dict_set:
  "dict_get (dict_set d k v) k' = (if k' = k then Some v else dict_get d k')"
  by (simp add: dict_get_def map_of_dict_set)

lemma keys_dict_set: "fst ` set (dict_set d k v) = insert k (fst ` set d)"
  by (induction d k v rule: dict_set.induct) auto

lemma distinct_dict_set: "distinct (map fst d) \<Longrightarrow> distinct (map fst (dict_set d k v))"
proof (induction d k v rule: dict_set.induct)
  case (1 k v)
  then show ?case by simp
next
  case (2 k' v' d k v)
  then show ?case by (auto simp: keys_dict_set)
qed

lemma dict_get_None_iff: "dict_get d k = None \<longleftrightarrow> k \<notin> fst ` set d"
  by (simp add: dict_get_def map_of_eq_None_iff)

lemma dict_get_Some_key: "dict_get d k = Some v \<Longrightarrow> k \<in> fst ` set d"
  using dict_get_None_iff [of d k] by simp

subsection \<open>Lists\<close>

lemma length_filter_less_iff:
  "length (filter P xs) < length xs \<longleftrightarrow> (\<exists>x\<in>set xs. \<not> P x)"
proof (induction xs)
  case Nil
  then show ?case by simp
next
  case (Cons x xs)
  have "length (filter P xs) \<le> length xs" by simp
  with Cons show ?case by auto
qed

subsection \<open>History values\<close>

lemma last_purchase_date_Inr: "last_purchase_date v = Inr d \<longleftrightarrow> v = Dated d"
  by (cases v) (auto simp: last_purchase_date_def)

lemma not_later_refl: "not_later a a"
  by (simp add: not_later_def)

lemma not_later_Dated: "not_later (Dated d) b \<longleftrightarrow> (\<exists>d'. b = Dated d' \<and> d \<le> d')"
  by (cases b) (auto simp: not_later_def)

lemma not_later_trans: "not_later a b \<Longrightarrow> not_later b c \<Longrightarrow> not_later a c"
  by (cases a; cases b; cases c) (auto simp: not_later_def)

lemma is_dated_iff: "(case v of Dated d \<Rightarrow> True | _ \<Rightarrow> False) \<longleftrightarrow> (\<exists>d. v = Dated d)"
  by (cases v) auto

lemma all_dated_iff: "all_dated h \<longleftrightarrow> (\<forall>kv\<in>set h. \<exists>d. snd kv = Dated d)"
  by (simp add: all_dated_def list_all_iff is_dated_iff)

lemma all_dated_dict_set: "all_dated h \<Longrightarrow> all_dated (dict_set h k (Dated d))"
  by (induction h k "Dated d" rule: dict_set.induct) (auto simp: all_dated_def)

lemma all_dated_dict_get: "all_dated h \<Longrightarrow> dict_get h k = Some v \<Longrightarrow> \<exists>d. v = Dated d"
  by (auto simp: all_dated_iff dict_get_def dest!: map_of_SomeD)

subsection \<open>The normalisation pass of the history load\<close>

lemma normalize_step_cases:
  assumes "normalize_step nh kv = Inr nh'"
  shows "(dict_get nh (lower (fst kv)) = None \<and> nh' = dict_set nh (lower (fst kv)) (snd kv))
       \<or> (\<exists>d d'. dict_get nh (lower (fst kv)) = Some (Dated d) \<and> snd kv = Dated d'
              \<and> nh' = (if d' > d then dict_set nh (lower (fst kv)) (Dated d') else nh))"
  using assms
  by (auto simp: normalize_step_def Let_def last_purchase_date_Inr
      split: option.splits sum.splits if_splits)

lemma keys_normalize_step:
  assumes "normalize_step nh kv = Inr nh'"
  shows "fst ` set nh' = insert (lower (fst kv)) (fst ` set nh)"
proof -
  from normalize_step_cases [OF assms]
  consider "nh' = dict_set nh (lower (fst kv)) (snd kv)"
    | d' where "nh' = dict_set nh (lower (fst kv)) (Dated d')"
    | d where "dict_get nh (lower (fst kv)) = Some (Dated d)" "nh' = nh"
    by (auto split: if_splits)
  then show ?thesis
  proof cases
    case 1
    then show ?thesis by (simp add: keys_dict_set)
  next
    case 2
    then show ?thesis by (simp add: keys_dict_set)
  next
    case 3
    then have "lower (fst kv) \<in> fst ` set nh" using dict_get_Some_key by fast
    with 3 show ?thesis by auto
  qed
qed

lemma distinct_normalize_step:
  "distinct (map fst nh) \<Longrightarrow> normalize_step nh kv = Inr nh' \<Longrightarrow> distinct (map fst nh')"
  by (auto simp: distinct_dict_set dest!: normalize_step_cases split: if_splits)

lemma dict_get_normalize_step_other:
  "normalize_step nh kv = Inr nh' \<Longrightarrow> k \<noteq> lower (fst kv) \<Longrightarrow> dict_get nh' k = dict_get nh k"
  by (auto simp: dict_get_dict_set dest!: normalize_step_cases split: if_splits)

lemma dict_get_normalize_step_key:
  assumes "normalize_step nh kv = Inr nh'"
  shows "\<exists>v. dict_get nh' (lower (fst kv)) = Some v \<and> not_later (snd kv) v
           \<and> (v = snd kv \<or> dict_get nh (lower (fst kv)) = Some v)
           \<and> (\<forall>v0. dict_get nh (lower (fst kv)) = Some v0 \<longrightarrow> not_later v0 v)"
  using normalize_step_cases [OF assms]
  by (auto simp: dict_get_dict_set not_later_refl not_later_Dated)

lemma all_dated_normalize_step:
  "all_dated nh \<Longrightarrow> normalize_step nh kv = Inr nh' \<Longrightarrow> (\<exists>d. snd kv = Dated d) \<Longrightarrow> all_dated nh'"
  by (auto simp: all_dated_dict_set dest!: normalize_step_cases split: if_splits)

lemma normalize_step_dated:
  assumes "all_dated nh" and "snd kv = Dated d"
  shows "\<exists>nh'. normalize_step nh kv = Inr nh'"
proof (cases "dict_get nh (lower (fst kv))")
  case None
  then show ?thesis by (simp add: normalize_step_def Let_def)
next
  case (Some v)
  then obtain d0 where "v = Dated d0" using all_dated_dict_get [OF assms(1)] by blast
  with Some assms(2) show ?thesis
    by (simp add: normalize_step_def Let_def last_purchase_date_def)
qed

lemma keys_normalize_loop:
  "for_each normalize_step nh raw = Inr h \<Longrightarrow>
     fst ` set h = fst ` set nh \<union> (\<lambda>kv. lower (fst kv)) ` set raw"
proof (induction raw arbitrary: nh)
  case Nil
  then show ?case by simp
next
  case (Cons kv raw)
  then obtain nh' where s: "normalize_step nh kv = Inr nh'"
    and l: "for_each normalize_step nh' raw = Inr h"
    by (auto split: sum.splits)
  show ?case using Cons.IH [OF l] keys_normalize_step [OF s] by auto
qed

lemma distinct_normalize_loop:
  "distinct (map fst nh) \<Longrightarrow> for_each normalize_step nh raw = Inr h \<Longrightarrow> distinct (map fst h)"
proof (induction raw arbitrary: nh)
  case Nil
  then show ?case by simp
next
  case (Cons kv raw)
  then obtain nh' where s: "normalize_step nh kv = Inr nh'"
    and l: "for_each normalize_step nh' raw = Inr h"
    by (auto split: sum.splits)
  show ?case using Cons.IH [OF distinct_normalize_step [OF Cons.prems(1) s] l] .
qed

lemma all_dated_normalize_loop:
  "all_dated nh \<Longrightarrow> all_dated raw \<Longrightarrow> for_each normalize_step nh raw = Inr h \<Longrightarrow> all_dated h"
proof (induction raw arbitrary: nh)
  case Nil
  then show ?case by simp
next
  case (Cons kv raw)
  then obtain nh' where s: "normalize_step nh kv = Inr nh'"
    and l: "for_each normalize_step nh' raw = Inr h"
    by (auto split: sum.splits)
  from Cons.prems(2) have k: "\<exists>d. snd kv = Dated d" and r: "all_dated raw"
    by (auto simp: all_dated_iff)
  show ?case using Cons.IH [OF all_dated_normalize_step [OF Cons.prems(1) s k] r l] .
qed

lemma normalize_loop_returns:
  "all_dated nh \<Longrightarrow> all_dated raw \<Longrightarrow> \<exists>h. for_each normalize_step nh raw = Inr h"
proof (induction raw arbitrary: nh)
  case Nil
  then show ?case by simp
next
  case (Cons kv raw)
  from Cons.prems(2) obtain d where k: "snd kv = Dated d" and r: "all_dated raw"
    by (auto simp: all_dated_iff)
  from normalize_step_dated [OF Cons.prems(1) k]
  obtain nh' where s: "normalize_step nh kv = Inr nh'" by blast
  have "all_dated nh'" using all_dated_normalize_step [OF Cons.prems(1) s] k by blast
  from Cons.IH [OF this r] show ?case using s by simp
qed

lemma dates_normalize_loop:
  "for_each normalize_step nh raw = Inr h \<Longrightarrow> dict_get h k = Some e \<Longrightarrow>
     (dict_get nh k = Some e \<or> (\<exists>kv\<in>set raw. lower (fst kv) = k \<and> snd kv = e))
   \<and> (\<forall>kv\<in>set raw. lower (fst kv) = k \<longrightarrow> not_later (snd kv) e)
   \<and> (\<forall>e0. dict_get nh k = Some e0 \<longrightarrow> not_later e0 e)"
proof (induction raw arbitrary: nh)
  case Nil
  then show ?case by (simp add: not_later_refl)
next
  case (Cons kv raw)
  then obtain nh' where s: "normalize_step nh kv = Inr nh'"
    and l: "for_each normalize_step nh' raw = Inr h"
    by (auto split: sum.splits)
  note ih = Cons.IH [OF l Cons.prems(2)]
  show ?case
  proof (cases "k = lower (fst kv)")
    case False
    then have "dict_get nh' k = dict_get nh k"
      using dict_get_normalize_step_other [OF s] by simp
    with ih False show ?thesis by auto
  next
    case True
    from dict_get_normalize_step_key [OF s] True
    obtain v where v: "dict_get nh' k = Some v" "not_later (snd kv) v"
      "v = snd kv \<or> dict_get nh k = Some v"
      "\<forall>v0. dict_get nh k = Some v0 \<longrightarrow> not_later v0 v"
      by auto
    from ih v(1) have ve: "not_later v e" by blast
    have a: "dict_get nh k = Some e \<or> (\<exists>kv'\<in>set (kv # raw). lower (fst kv') = k \<and> snd kv' = e)"
    proof (cases "dict_get nh' k = Some e")
      case True
      with v(1) have "v = e" by simp
      with v(3) True \<open>k = lower (fst kv)\<close> show ?thesis by auto
    next
      case False
      with ih show ?thesis by auto
    qed
    have b: "\<forall>kv'\<in>set (kv # raw). lower (fst kv') = k \<longrightarrow> not_later (snd kv') e"
      using ih not_later_trans [OF v(2) ve] by auto
    have c: "\<forall>e0. dict_get nh k = Some e0 \<longrightarrow> not_later e0 e"
      using v(4) ve not_later_trans by blast
    from a b c show ?thesis by blast
  qed
qed

lemma lower_keys_fixed:
  assumes "fst ` set h \<subseteq> range lower"
  shows "map (\<lambda>kv. lower (fst kv)) h = map fst h"
proof -
  have "\<forall>p\<in>set h. lower (fst p) = fst p"
  proof
    fix p assume "p \<in> set h"
    then have "fst p \<in> range lower" using assms by blast
    then obtain s where "fst p = lower s" by blast
    then show "lower (fst p) = fst p" by (simp add: lower_idem)
  qed
  then show ?thesis by simp
qed

lemma normalized_normalize_loop:
  assumes "for_each normalize_step [] raw = Inr h"
  shows "normalized h"
proof -
  have "fst ` set h \<subseteq> range lower" using keys_normalize_loop [OF assms] by auto
  then have "map (\<lambda>kv. lower (fst kv)) h = map fst h" by (rule lower_keys_fixed)
  moreover have "distinct (map fst h)" using distinct_normalize_loop [OF _ assms] by simp
  ultimately show ?thesis by (simp add: normalized_def)
qed

lemma normalized_distinct_lower:
  "normalized h \<Longrightarrow> distinct (map (\<lambda>kv. lower (fst kv)) h)"
  unfolding normalized_def by (elim conjE) (simp only:)

subsection \<open>The purchase-closing loop\<close>

lemma dict_get_foldl_purchase_step:
  "dict_get (foldl (purchase_step t) h xs) k =
     (if k \<in> (\<lambda>it. lower (name it)) ` set xs then Some (Dated t) else dict_get h k)"
  by (induction xs arbitrary: h) (auto simp: purchase_step_def dict_get_dict_set)

lemma keys_foldl_purchase_step:
  "fst ` set (foldl (purchase_step t) h xs) = fst ` set h \<union> (\<lambda>it. lower (name it)) ` set xs"
  by (induction xs arbitrary: h) (auto simp: purchase_step_def keys_dict_set)

lemma distinct_foldl_purchase_step:
  "distinct (map fst h) \<Longrightarrow> distinct (map fst (foldl (purchase_step t) h xs))"
  by (induction xs arbitrary: h) (auto simp: purchase_step_def distinct_dict_set)

lemma normalized_foldl_purchase_step:
  assumes "normalized h"
  shows "normalized (foldl (purchase_step t) h xs)"
proof -
  let ?h = "foldl (purchase_step t) h xs"
  have "\<forall>p\<in>set h. fst p = lower (fst p)"
    using assms by (simp add: normalized_def)
  then have "fst ` set h \<subseteq> range lower" by auto
  then have "fst ` set ?h \<subseteq> range lower" by (auto simp: keys_foldl_purchase_step)
  then have "map (\<lambda>kv. lower (fst kv)) ?h = map fst ?h" by (rule lower_keys_fixed)
  then show ?thesis
    using assms by (simp add: normalized_def distinct_foldl_purchase_step)
qed

lemma all_dated_foldl_purchase_step:
  "all_dated h \<Longrightarrow> all_dated (foldl (purchase_step t) h xs)"
  by (induction xs arbitrary: h) (auto simp: purchase_step_def all_dated_dict_set)

subsection \<open>The suggestion loops\<close>

lemma missing_loop:
  "for_each (missing_step today cur) (s, seen) h =
     (case find (\<lambda>kv. isl (last_purchase_date (snd kv)))
             (filter (\<lambda>kv. lower (fst kv) \<notin> cur) (first_seen seen h)) of
        Some kv \<Rightarrow> Inl (projl (last_purchase_date (snd kv)))
      | None \<Rightarrow>
          Inr (s @ map (\<lambda>kv. missing_message (fst kv))
                     (filter (\<lambda>kv. case last_purchase_date (snd kv) of
                                      Inr d \<Rightarrow> today - d > 7 | Inl e \<Rightarrow> False)
                        (filter (\<lambda>kv. lower (fst kv) \<notin> cur) (first_seen seen h))),
               seen \<union> (\<lambda>kv. lower (fst kv)) ` set h))"
proof (induction h arbitrary: s seen)
  case Nil
  then show ?case by simp
next
  case (Cons kv h)
  show ?case
  proof (cases "lower (fst kv) \<in> seen")
    case True
    then have "missing_step today cur (s, seen) kv = Inr (s, seen)"
      by (simp add: missing_step_def Let_def)
    then show ?thesis
      using True Cons.IH [of s seen] by (auto simp: insert_absorb split: option.splits)
  next
    case False
    note unseen = this
    show ?thesis
    proof (cases "lower (fst kv) \<in> cur")
      case True
      then have "missing_step today cur (s, seen) kv = Inr (s, insert (lower (fst kv)) seen)"
        using unseen by (simp add: missing_step_def Let_def)
      then show ?thesis
        using True unseen Cons.IH [of s "insert (lower (fst kv)) seen"]
        by (auto split: option.splits)
    next
      case False
      show ?thesis
      proof (cases "last_purchase_date (snd kv)")
        case (Inl e)
        then have "missing_step today cur (s, seen) kv = Inl e"
          using unseen False by (simp add: missing_step_def Let_def)
        then show ?thesis using unseen False Inl by (auto split: option.splits)
      next
        case (Inr d)
        then have "missing_step today cur (s, seen) kv =
            Inr (if today - d > 7 then s @ [missing_message (fst kv)] else s,
                 insert (lower (fst kv)) seen)"
          using unseen False by (simp add: missing_step_def Let_def)
        then show ?thesis
          using unseen False Inr
            Cons.IH [of "if today - d > 7 then s @ [missing_message (fst kv)] else s"
              "insert (lower (fst kv)) seen"]
          by (auto split: option.splits)
      qed
    qed
  qed
qed

lemma first_seen_keys: "(\<lambda>kv. lower (fst kv)) ` set (first_seen seen h) \<inter> seen = {}"
  by (induction h arbitrary: seen) auto

lemma first_seen_distinct: "distinct (map (\<lambda>kv. lower (fst kv)) (first_seen seen h))"
proof (induction h arbitrary: seen)
  case Nil
  then show ?case by simp
next
  case (Cons kv h)
  show ?case
  proof (cases "lower (fst kv) \<in> seen")
    case True
    then show ?thesis using Cons.IH by simp
  next
    case False
    have "lower (fst kv) \<notin>
        (\<lambda>kv. lower (fst kv)) ` set (first_seen (insert (lower (fst kv)) seen) h)"
      using first_seen_keys [of "insert (lower (fst kv)) seen" h] by blast
    then show ?thesis using False Cons.IH by simp
  qed
qed

lemma first_seen_id:
  "distinct (map (\<lambda>kv. lower (fst kv)) h) \<Longrightarrow> (\<lambda>kv. lower (fst kv)) ` set h \<inter> seen = {}
     \<Longrightarrow> first_seen seen h = h"
  by (induction h arbitrary: seen) auto

lemma foldl_reminder_step:
  "foldl (reminder_step today) acc xs =
     acc @ concat (map (\<lambda>it. case expiry_date it of
                           None \<Rightarrow> []
                         | Some e \<Rightarrow> if 1 \<le> e - today \<and> e - today \<le> 5
                                     then [reminder_message (name it) (e - today)] else []) xs)"
  by (induction xs arbitrary: acc) (auto simp: reminder_step_def Let_def split: option.splits)

lemma length_reminders:
  "length (concat (map (\<lambda>it. case expiry_date it of
                           None \<Rightarrow> []
                         | Some e \<Rightarrow> if 1 \<le> e - today \<and> e - today \<le> 5
                                     then [reminder_message (name it) (e - today)] else []) xs))
     = length (filter (\<lambda>it. case expiry_date it of
                               None \<Rightarrow> False
                             | Some e \<Rightarrow> 1 \<le> e - today \<and> e - today \<le> 5) xs)"
  by (induction xs) (auto split: option.splits)

subsection \<open>The dispatcher\<close>

lemma select_branch_first_match: "select_branch m = first_match spec_priority m"
  by (simp add: select_branch_def first_match_def spec_priority_def)

lemma select_branch_not_clear: "select_branch m \<noteq> BClear"
  using contains_clear_list [of m] by (auto simp: select_branch_def)

section \<open>List manager: claims\<close>

text \<open>
  Claim C1. \<open>remove_item_from_list\<close> keeps exactly the entries whose lower-cased name
  differs from the lower-cased query, so every matching entry goes and not only the first.
  It returns \<open>True\<close> iff some entry matched. In that case the grocery-list file is
  rewritten with the remaining entries (one logged write) and nothing else changes;
  otherwise it returns \<open>False\<close> and the whole state, the list and the files included, is
  as before.
\<close>

theorem remove_item_from_list_spec:
  "remove_item_from_list q st = (b, st') \<Longrightarrow>
     items st' = filter (\<lambda>it. lower (name it) \<noteq> lower q) (items st)
   \<and> (b \<longleftrightarrow> (\<exists>it\<in>set (items st). lower (name it) = lower q))
   \<and> (b \<longrightarrow> st' = st\<lparr>items := filter (\<lambda>it. lower (name it) \<noteq> lower q) (items st),
                         grocery_list_file :=
                           Json (LArray (map ItemObject
                             (filter (\<lambda>it. lower (name it) \<noteq> lower q) (items st)))),
                         written := written st @ [GroceryListFile]\<rparr>)
   \<and> (\<not> b \<longrightarrow> st' = st)"
  by (auto simp: remove_item_from_list_def save_grocery_list_def Let_def length_filter_less_iff
        split: if_splits)

theorem remove_item_from_list_witness:
  "remove_item_from_list ''milk'' st_milk =
     (True, st_milk\<lparr>items := [Product ''Eggs'', Product (CHR 0xC9 # ''CLAIR'')],
                    grocery_list_file :=
                      Json (LArray [ItemObject (Product ''Eggs''),
                                    ItemObject (Product (CHR 0xC9 # ''CLAIR''))]),
                    written := [GroceryListFile]\<rparr>)
   \<and> (\<exists>it\<in>set (items st_milk). lower (name it) = lower ''milk'')
   \<and> fst (remove_item_from_list (CHR 0xE9 # ''clair'') st_milk)
   \<and> items (snd (remove_item_from_list (CHR 0xE9 # ''clair'') st_milk))
       = [Product ''Milk'', Product ''Eggs'', Product ''MILK'']
   \<and> remove_item_from_list ''bread'' st_milk = (False, st_milk)
   \<and> \<not> (\<exists>it\<in>set (items st_milk). lower (name it) = lower ''bread'')"
proof -
  have r: "remove_item_from_list ''milk'' st_milk =
     (True, st_milk\<lparr>items := [Product ''Eggs'', Product (CHR 0xC9 # ''CLAIR'')],
                    grocery_list_file :=
                      Json (LArray [ItemObject (Product ''Eggs''),
                                    ItemObject (Product (CHR 0xC9 # ''CLAIR''))]),
                    written := [GroceryListFile]\<rparr>)"
    by code_simp
  have e: "fst (remove_item_from_list (CHR 0xE9 # ''clair'') st_milk)"
    "items (snd (remove_item_from_list (CHR 0xE9 # ''clair'') st_milk))
       = [Product ''Milk'', Product ''Eggs'', Product ''MILK'']"
    by code_simp+
  have n: "fst (remove_item_from_list ''bread'' st_milk) = False"
    by code_simp
  have p: "remove_item_from_list ''bread'' st_milk =
      (False, snd (remove_item_from_list ''bread'' st_milk))"
    using n by (cases "remove_item_from_list ''bread'' st_milk") simp
  show ?thesis
    using remove_item_from_list_spec [OF r] remove_item_from_list_spec [OF p] r p e by simp
qed

text \<open>
  Claim C8. \<open>add_item_to_list\<close> returns the item it was given, and the list read back
  with \<open>get_grocery_list\<close> is the old list followed by that item, the record unchanged in
  every field; the grocery-list file is rewritten with the new list.
\<close>

theorem add_item_to_list_spec:
  "fst (add_item_to_list item st) = item
   \<and> get_grocery_list (snd (add_item_to_list item st)) = get_grocery_list st @ [item]
   \<and> last (get_grocery_list (snd (add_item_to_list item st))) = item
   \<and> snd (add_item_to_list item st) =
       st\<lparr>items := items st @ [item],
          grocery_list_file := Json (LArray (map ItemObject (items st @ [item]))),
          written := written st @ [GroceryListFile]\<rparr>"
  by (simp add: add_item_to_list_def get_grocery_list_def save_grocery_list_def)

section \<open>Purchase closer: claims\<close>

text \<open>
  Claim C2. After \<open>mark_items_as_purchased\<close> the grocery list is empty; for every item
  that was in the list, the history holds under the item's lower-cased name an entry
  dated today, whatever date was there before; the entries of all other names are kept.
  The history file is written with the new history and the list file with the empty
  list, in this order.
\<close>

theorem mark_items_as_purchased_spec:
  "mark_items_as_purchased today st = (r, st') \<Longrightarrow>
     items st' = []
   \<and> (\<forall>it\<in>set (items st).
         dict_get (purchase_history st') (lower (name it)) = Some (Dated today))
   \<and> (\<forall>k. k \<notin> (\<lambda>it. lower (name it)) ` set (items st) \<longrightarrow>
         dict_get (purchase_history st') k = dict_get (purchase_history st) k)
   \<and> purchase_history_file st' = Json (HObject (purchase_history st'))
   \<and> grocery_list_file st' = Json (LArray [])
   \<and> written st' = written st @ [PurchaseHistoryFile, GroceryListFile]"
  by (auto simp: mark_items_as_purchased_def save_grocery_list_def Let_def
        dict_get_foldl_purchase_step)

theorem mark_items_as_purchased_witness:
  "Product ''Eggs'' \<in> set (items st_bought)
   \<and> Product (CHR 0xC9 # ''CLAIR'') \<in> set (items st_bought)
   \<and> dict_get (purchase_history st_bought) ''eggs'' = Some (Dated 80)
   \<and> dict_get (purchase_history st_bought) (CHR 0xE9 # ''clair'') = Some (Dated 50)
   \<and> dict_get (purchase_history (snd (mark_items_as_purchased 100 st_bought))) ''eggs''
       = Some (Dated 100)
   \<and> dict_get (purchase_history (snd (mark_items_as_purchased 100 st_bought)))
         (CHR 0xE9 # ''clair'')
       = Some (Dated 100)
   \<and> dict_get (purchase_history (snd (mark_items_as_purchased 100 st_bought))) ''milk''
       = Some (Dated 92)
   \<and> items (snd (mark_items_as_purchased 100 st_bought)) = []
   \<and> grocery_list_file (snd (mark_items_as_purchased 100 st_bought)) = Json (LArray [])
   \<and> written (snd (mark_items_as_purchased 100 st_bought))
       = [PurchaseHistoryFile, GroceryListFile]"
proof -
  have i: "Product ''Eggs'' \<in> set (items st_bought)"
    "Product (CHR 0xC9 # ''CLAIR'') \<in> set (items st_bought)"
    by code_simp+
  have l: "lower (name (Product ''Eggs'')) = ''eggs''"
    "lower (name (Product (CHR 0xC9 # ''CLAIR''))) = CHR 0xE9 # ''clair''"
    by code_simp+
  have m: "''milk'' \<notin> (\<lambda>it. lower (name it)) ` set (items st_bought)" by code_simp
  have b: "dict_get (purchase_history st_bought) ''eggs'' = Some (Dated 80)"
    "dict_get (purchase_history st_bought) (CHR 0xE9 # ''clair'') = Some (Dated 50)"
    "dict_get (purchase_history st_bought) ''milk'' = Some (Dated 92)"
    "written st_bought = []"
    by code_simp+
  have p: "mark_items_as_purchased 100 st_bought =
      (fst (mark_items_as_purchased 100 st_bought), snd (mark_items_as_purchased 100 st_bought))"
    by simp
  show ?thesis
    using mark_items_as_purchased_spec [OF p] i l m b by auto
qed

section \<open>Suggestion engine: claims\<close>

text \<open>
  Claim C3. \<open>suggest_missing_items\<close> looks at each lower-cased history name once, at the
  first entry that carries it, and reads the date of such an entry iff its name is not
  among the lower-cased names of the list; it emits a suggestion for the entry iff that
  date is more than 7 days back. (The first entry whose date cannot be read ends the pass
  with the exception of the read.) On a history that obeys the data model, with no two
  keys of the same lower-cased name and a date in every entry, every entry is looked at:
  an entry absent from the list is suggested iff it was last bought more than 7 days
  ago. An entry dated 7 days ago gives no suggestion, one dated 8 days ago gives exactly
  one.
\<close>

theorem suggest_missing_items_spec:
  "suggest_missing_items today st =
     (case find (\<lambda>kv. isl (last_purchase_date (snd kv)))
             (filter (\<lambda>kv. lower (fst kv) \<notin> set (map (\<lambda>item. lower (name item)) (items st)))
                (first_seen {} (purchase_history st))) of
        Some kv \<Rightarrow> Inl (projl (last_purchase_date (snd kv)))
      | None \<Rightarrow>
          Inr (map (\<lambda>kv. missing_message (fst kv))
                 (filter (\<lambda>kv. case last_purchase_date (snd kv) of
                                  Inr d \<Rightarrow> today - d > 7 | Inl e \<Rightarrow> False)
                    (filter (\<lambda>kv. lower (fst kv)
                                    \<notin> set (map (\<lambda>item. lower (name item)) (items st)))
                       (first_seen {} (purchase_history st))))))
   \<and> distinct (map (\<lambda>kv. lower (fst kv)) (first_seen {} (purchase_history st)))
   \<and> (distinct (map (\<lambda>kv. lower (fst kv)) (purchase_history st))
        \<and> all_dated (purchase_history st) \<longrightarrow>
        suggest_missing_items today st =
          Inr (map (\<lambda>kv. missing_message (fst kv))
                 (filter (\<lambda>kv. lower (fst kv) \<notin> set (map (\<lambda>item. lower (name item)) (items st))
                               \<and> (case snd kv of Dated d \<Rightarrow> today - d > 7 | _ \<Rightarrow> False))
                    (purchase_history st))))
   \<and> suggest_missing_items today
        (st\<lparr>items := [], purchase_history := [(n, Dated (today - 7))]\<rparr>) = Inr []
   \<and> suggest_missing_items today
        (st\<lparr>items := [], purchase_history := [(n, Dated (today - 8))]\<rparr>)
        = Inr [missing_message n]"
proof -
  let ?cur = "set (map (\<lambda>item. lower (name item)) (items st))"
  let ?h = "purchase_history st"
  have gen: "suggest_missing_items today s =
     (case find (\<lambda>kv. isl (last_purchase_date (snd kv)))
             (filter (\<lambda>kv. lower (fst kv) \<notin> set (map (\<lambda>item. lower (name item)) (items s)))
                (first_seen {} (purchase_history s))) of
        Some kv \<Rightarrow> Inl (projl (last_purchase_date (snd kv)))
      | None \<Rightarrow>
          Inr (map (\<lambda>kv. missing_message (fst kv))
                 (filter (\<lambda>kv. case last_purchase_date (snd kv) of
                                  Inr d \<Rightarrow> today - d > 7 | Inl e \<Rightarrow> False)
                    (filter (\<lambda>kv. lower (fst kv)
                                    \<notin> set (map (\<lambda>item. lower (name item)) (items s)))
                       (first_seen {} (purchase_history s))))))" for s
    by (simp add: suggest_missing_items_def missing_loop split: option.splits)
  have model: "suggest_missing_items today st =
          Inr (map (\<lambda>kv. missing_message (fst kv))
                 (filter (\<lambda>kv. lower (fst kv) \<notin> ?cur
                               \<and> (case snd kv of Dated d \<Rightarrow> today - d > 7 | _ \<Rightarrow> False)) ?h))"
    if d: "distinct (map (\<lambda>kv. lower (fst kv)) ?h)" and a: "all_dated ?h"
  proof -
    have id: "first_seen {} ?h = ?h" using d by (intro first_seen_id) simp_all
    have ok: "\<forall>kv\<in>set ?h. \<not> isl (last_purchase_date (snd kv))"
      using a by (auto simp: all_dated_iff last_purchase_date_def)
    then have none: "find (\<lambda>kv. isl (last_purchase_date (snd kv)))
        (filter (\<lambda>kv. lower (fst kv) \<notin> ?cur) ?h) = None"
      by (auto simp: find_None_iff)
    have late: "filter (\<lambda>kv. case last_purchase_date (snd kv) of
                                  Inr d \<Rightarrow> today - d > 7 | Inl e \<Rightarrow> False)
                    (filter (\<lambda>kv. lower (fst kv) \<notin> ?cur) ?h)
        = filter (\<lambda>kv. lower (fst kv) \<notin> ?cur
                      \<and> (case snd kv of Dated d \<Rightarrow> today - d > 7 | _ \<Rightarrow> False)) ?h"
      unfolding filter_filter
      by (rule filter_cong) (auto simp: last_purchase_date_def split: hvalue.splits)
    show ?thesis unfolding gen [of st] id none late by simp
  qed
  have b7: "suggest_missing_items today
        (st\<lparr>items := [], purchase_history := [(n, Dated (today - 7))]\<rparr>) = Inr []"
    by (simp add: suggest_missing_items_def missing_step_def last_purchase_date_def)
  have b8: "suggest_missing_items today
        (st\<lparr>items := [], purchase_history := [(n, Dated (today - 8))]\<rparr>)
        = Inr [missing_message n]"
    by (simp add: suggest_missing_items_def missing_step_def last_purchase_date_def)
  show ?thesis
    using gen [of st] first_seen_distinct [of "{}" ?h] model b7 b8 by blast
qed

theorem suggest_missing_items_witness:
  "distinct (map (\<lambda>kv. lower (fst kv)) (purchase_history st_bought))
   \<and> all_dated (purchase_history st_bought)
   \<and> suggest_missing_items 100 st_bought = Inr [missing_message ''milk'']"
proof -
  have d: "distinct (map (\<lambda>kv. lower (fst kv)) (purchase_history st_bought))"
    "all_dated (purchase_history st_bought)"
    by code_simp+
  have e: "map (\<lambda>kv. missing_message (fst kv))
            (filter (\<lambda>kv. lower (fst kv) \<notin> set (map (\<lambda>item. lower (name item)) (items st_bought))
                          \<and> (case snd kv of Dated d \<Rightarrow> 100 - d > 7 | _ \<Rightarrow> False))
               (purchase_history st_bought)) = [missing_message ''milk'']"
    by code_simp
  from suggest_missing_items_spec [of 100 st_bought] d
  have "suggest_missing_items 100 st_bought =
          Inr (map (\<lambda>kv. missing_message (fst kv))
            (filter (\<lambda>kv. lower (fst kv) \<notin> set (map (\<lambda>item. lower (name item)) (items st_bought))
                          \<and> (case snd kv of Dated d \<Rightarrow> 100 - d > 7 | _ \<Rightarrow> False))
               (purchase_history st_bought)))"
    by blast
  with d e show ?thesis by simp
qed

text \<open>
  Claim C4. \<open>get_expiry_reminders\<close> emits, in list order, one reminder for each item
  that has an expiry date with \<open>1 \<le> expiry - today \<le> 5\<close>, and nothing for any other
  item: none for an item without expiry date, none for one that expires today, has
  expired, or expires in 6 days.
\<close>

theorem get_expiry_reminders_spec:
  "get_expiry_reminders today st =
     concat (map (\<lambda>it. case expiry_date it of
                           None \<Rightarrow> []
                         | Some e \<Rightarrow> if 1 \<le> e - today \<and> e - today \<le> 5
                                     then [reminder_message (name it) (e - today)] else [])
                 (items st))
   \<and> length (get_expiry_reminders today st) =
       length (filter (\<lambda>it. case expiry_date it of
                                None \<Rightarrow> False
                              | Some e \<Rightarrow> 1 \<le> e - today \<and> e - today \<le> 5) (items st))
   \<and> get_expiry_reminders today (st\<lparr>items := [it\<lparr>expiry_date := Some (today + 1)\<rparr>]\<rparr>)
       = [reminder_message (name it) 1]
   \<and> get_expiry_reminders today (st\<lparr>items := [it\<lparr>expiry_date := Some (today + 5)\<rparr>]\<rparr>)
       = [reminder_message (name it) 5]
   \<and> get_expiry_reminders today (st\<lparr>items := [it\<lparr>expiry_date := Some (today + 6)\<rparr>]\<rparr>) = []
   \<and> get_expiry_reminders today (st\<lparr>items := [it\<lparr>expiry_date := Some today\<rparr>]\<rparr>) = []
   \<and> get_expiry_reminders today (st\<lparr>items := [it\<lparr>expiry_date := Some (today - 1)\<rparr>]\<rparr>) = []
   \<and> get_expiry_reminders today (st\<lparr>items := [it\<lparr>expiry_date := None\<rparr>]\<rparr>) = []"
proof -
  have gen: "get_expiry_reminders today s =
      concat (map (\<lambda>it. case expiry_date it of
                           None \<Rightarrow> []
                         | Some e \<Rightarrow> if 1 \<le> e - today \<and> e - today \<le> 5
                                     then [reminder_message (name it) (e - today)] else [])
                 (items s))" for s
    by (simp add: get_expiry_reminders_def foldl_reminder_step)
  show ?thesis
    unfolding gen length_reminders by simp
qed

section \<open>Record store: claims\<close>

text \<open>
  Claim C5, as the code has it. When the history file decodes to a map whose entries all
  carry a date, \<open>load_purchase_history\<close> returns a map whose keys are exactly the
  lower-cased raw keys, each once, also up to letter case; the date under a key is the
  date of one of the raw entries with that lower-cased key and no such raw entry has a
  later one; the history file is rewritten with the returned map. Whenever the load of a
  decoded map returns, its result is such a map and is written back. For a missing file
  and for text that is not JSON the load returns the empty map and writes nothing.
\<close>

theorem load_purchase_history_spec:
  "(purchase_history_file st = Json (HObject raw) \<and> all_dated raw \<longrightarrow>
      (\<exists>h. load_purchase_history st =
              (Inr h, st\<lparr>purchase_history_file := Json (HObject h),
                         written := written st @ [PurchaseHistoryFile]\<rparr>)
         \<and> fst ` set h = (\<lambda>kv. lower (fst kv)) ` set raw
         \<and> distinct (map fst h)
         \<and> distinct (map (\<lambda>kv. lower (fst kv)) h)
         \<and> (\<forall>k e. dict_get h k = Some e \<longrightarrow>
               (\<exists>d. e = Dated d
                  \<and> (\<exists>kv\<in>set raw. lower (fst kv) = k \<and> snd kv = Dated d)
                  \<and> (\<forall>kv\<in>set raw. \<forall>d'. lower (fst kv) = k \<and> snd kv = Dated d'
                        \<longrightarrow> d' \<le> d)))))
   \<and> (purchase_history_file st = Json (HObject raw)
        \<and> load_purchase_history st = (Inr h, st') \<longrightarrow>
        st' = st\<lparr>purchase_history_file := Json (HObject h),
                  written := written st @ [PurchaseHistoryFile]\<rparr>
        \<and> fst ` set h = (\<lambda>kv. lower (fst kv)) ` set raw
        \<and> distinct (map fst h)
        \<and> distinct (map (\<lambda>kv. lower (fst kv)) h)
        \<and> (\<forall>k e. dict_get h k = Some e \<longrightarrow>
              (\<exists>kv\<in>set raw. lower (fst kv) = k \<and> snd kv = e)
            \<and> (\<forall>kv\<in>set raw. lower (fst kv) = k \<longrightarrow> not_later (snd kv) e)))
   \<and> (purchase_history_file st = Absent \<or> purchase_history_file st = Corrupt \<longrightarrow>
        load_purchase_history st = (Inr [], st))"
proof -
  have ret: "st' = st\<lparr>purchase_history_file := Json (HObject h),
                  written := written st @ [PurchaseHistoryFile]\<rparr>
        \<and> fst ` set h = (\<lambda>kv. lower (fst kv)) ` set raw
        \<and> distinct (map fst h)
        \<and> distinct (map (\<lambda>kv. lower (fst kv)) h)
        \<and> (\<forall>k e. dict_get h k = Some e \<longrightarrow>
              (\<exists>kv\<in>set raw. lower (fst kv) = k \<and> snd kv = e)
            \<and> (\<forall>kv\<in>set raw. lower (fst kv) = k \<longrightarrow> not_later (snd kv) e))"
    if f: "purchase_history_file st = Json (HObject raw)"
      and l: "load_purchase_history st = (Inr h, st')" for h st'
  proof -
    from l f have loop: "for_each normalize_step [] raw = Inr h"
      and s: "st' = st\<lparr>purchase_history_file := Json (HObject h),
                        written := written st @ [PurchaseHistoryFile]\<rparr>"
      by (cases "for_each normalize_step [] raw";
          simp add: load_purchase_history_def json_load_def)+
    have k: "fst ` set h = (\<lambda>kv. lower (fst kv)) ` set raw"
      using keys_normalize_loop [OF loop] by simp
    have n: "normalized h" using loop by (rule normalized_normalize_loop)
    then have d: "distinct (map fst h)" by (simp add: normalized_def)
    have d2: "distinct (map (\<lambda>kv. lower (fst kv)) h)"
      using n by (rule normalized_distinct_lower)
    have dates: "\<forall>k e. dict_get h k = Some e \<longrightarrow>
              (\<exists>kv\<in>set raw. lower (fst kv) = k \<and> snd kv = e)
            \<and> (\<forall>kv\<in>set raw. lower (fst kv) = k \<longrightarrow> not_later (snd kv) e)"
    proof (intro allI impI)
      fix k e assume g: "dict_get h k = Some e"
      have "dict_get [] k \<noteq> Some e" by (simp add: dict_get_def)
      with dates_normalize_loop [OF loop g]
      show "(\<exists>kv\<in>set raw. lower (fst kv) = k \<and> snd kv = e)
            \<and> (\<forall>kv\<in>set raw. lower (fst kv) = k \<longrightarrow> not_later (snd kv) e)"
        by simp
    qed
    show ?thesis by (intro conjI) (fact s, fact k, fact d, fact d2, fact dates)
  qed
  have dated: "\<exists>h. load_purchase_history st =
              (Inr h, st\<lparr>purchase_history_file := Json (HObject h),
                         written := written st @ [PurchaseHistoryFile]\<rparr>)
         \<and> fst ` set h = (\<lambda>kv. lower (fst kv)) ` set raw
         \<and> distinct (map fst h)
         \<and> distinct (map (\<lambda>kv. lower (fst kv)) h)
         \<and> (\<forall>k e. dict_get h k = Some e \<longrightarrow>
               (\<exists>d. e = Dated d
                  \<and> (\<exists>kv\<in>set raw. lower (fst kv) = k \<and> snd kv = Dated d)
                  \<and> (\<forall>kv\<in>set raw. \<forall>d'. lower (fst kv) = k \<and> snd kv = Dated d'
                        \<longrightarrow> d' \<le> d)))"
    if f: "purchase_history_file st = Json (HObject raw)" and a: "all_dated raw"
  proof -
    have e: "all_dated []" by (simp add: all_dated_def)
    from normalize_loop_returns [OF e a]
    obtain h where loop: "for_each normalize_step [] raw = Inr h" by blast
    have l: "load_purchase_history st =
              (Inr h, st\<lparr>purchase_history_file := Json (HObject h),
                         written := written st @ [PurchaseHistoryFile]\<rparr>)"
      using f loop by (simp add: load_purchase_history_def json_load_def)
    note r = ret [OF f l]
    note k = r [THEN conjunct2, THEN conjunct1]
    note d = r [THEN conjunct2, THEN conjunct2, THEN conjunct1]
    note d2 = r [THEN conjunct2, THEN conjunct2, THEN conjunct2, THEN conjunct1]
    note gen = r [THEN conjunct2, THEN conjunct2, THEN conjunct2, THEN conjunct2]
    have ad: "all_dated h" using all_dated_normalize_loop [OF e a loop] .
    have dates: "\<forall>k e. dict_get h k = Some e \<longrightarrow>
               (\<exists>d. e = Dated d
                  \<and> (\<exists>kv\<in>set raw. lower (fst kv) = k \<and> snd kv = Dated d)
                  \<and> (\<forall>kv\<in>set raw. \<forall>d'. lower (fst kv) = k \<and> snd kv = Dated d'
                        \<longrightarrow> d' \<le> d))"
    proof (intro allI impI)
      fix k e assume g: "dict_get h k = Some e"
      from all_dated_dict_get [OF ad g] obtain d where ed: "e = Dated d" by blast
      from gen g have x: "\<exists>kv\<in>set raw. lower (fst kv) = k \<and> snd kv = e"
        and y: "\<forall>kv\<in>set raw. lower (fst kv) = k \<longrightarrow> not_later (snd kv) e"
        by simp_all
      have z: "\<forall>kv\<in>set raw. \<forall>d'. lower (fst kv) = k \<and> snd kv = Dated d' \<longrightarrow> d' \<le> d"
      proof (intro ballI allI impI)
        fix kv d' assume m: "kv \<in> set raw" and c: "lower (fst kv) = k \<and> snd kv = Dated d'"
        from y m c have "not_later (snd kv) e" by blast
        with c ed have "not_later (Dated d') (Dated d)" by simp
        then show "d' \<le> d" by (simp add: not_later_Dated)
      qed
      from x ed have x': "\<exists>kv\<in>set raw. lower (fst kv) = k \<and> snd kv = Dated d" by simp
      show "\<exists>d. e = Dated d
                  \<and> (\<exists>kv\<in>set raw. lower (fst kv) = k \<and> snd kv = Dated d)
                  \<and> (\<forall>kv\<in>set raw. \<forall>d'. lower (fst kv) = k \<and> snd kv = Dated d'
                        \<longrightarrow> d' \<le> d)"
        by (intro exI [of _ d] conjI) (fact ed, fact x', fact z)
    qed
    show ?thesis by (intro exI [of _ h] conjI) (fact l, fact k, fact d, fact d2, fact dates)
  qed
  have miss: "load_purchase_history st = (Inr [], st)"
    if "purchase_history_file st = Absent \<or> purchase_history_file st = Corrupt"
    using that by (auto simp: load_purchase_history_def json_load_def)
  have A: "purchase_history_file st = Json (HObject raw) \<and> all_dated raw \<longrightarrow>
      (\<exists>h. load_purchase_history st =
              (Inr h, st\<lparr>purchase_history_file := Json (HObject h),
                         written := written st @ [PurchaseHistoryFile]\<rparr>)
         \<and> fst ` set h = (\<lambda>kv. lower (fst kv)) ` set raw
         \<and> distinct (map fst h)
         \<and> distinct (map (\<lambda>kv. lower (fst kv)) h)
         \<and> (\<forall>k e. dict_get h k = Some e \<longrightarrow>
               (\<exists>d. e = Dated d
                  \<and> (\<exists>kv\<in>set raw. lower (fst kv) = k \<and> snd kv = Dated d)
                  \<and> (\<forall>kv\<in>set raw. \<forall>d'. lower (fst kv) = k \<and> snd kv = Dated d'
                        \<longrightarrow> d' \<le> d))))"
    by (rule impI, elim conjE, rule dated)
  have B: "purchase_history_file st = Json (HObject raw)
        \<and> load_purchase_history st = (Inr h, st') \<longrightarrow>
        st' = st\<lparr>purchase_history_file := Json (HObject h),
                  written := written st @ [PurchaseHistoryFile]\<rparr>
        \<and> fst ` set h = (\<lambda>kv. lower (fst kv)) ` set raw
        \<and> distinct (map fst h)
        \<and> distinct (map (\<lambda>kv. lower (fst kv)) h)
        \<and> (\<forall>k e. dict_get h k = Some e \<longrightarrow>
              (\<exists>kv\<in>set raw. lower (fst kv) = k \<and> snd kv = e)
            \<and> (\<forall>kv\<in>set raw. lower (fst kv) = k \<longrightarrow> not_later (snd kv) e))"
    by (rule impI, elim conjE, rule ret)
  have C: "purchase_history_file st = Absent \<or> purchase_history_file st = Corrupt \<longrightarrow>
        load_purchase_history st = (Inr [], st)"
    by (rule impI, rule miss)
  show ?thesis by (rule conjI [OF A conjI [OF B C]])
qed

theorem load_purchase_history_witness:
  "purchase_history_file st_raw = Json (HObject raw_history)
   \<and> all_dated raw_history
   \<and> load_purchase_history st_raw =
       (Inr [(''milk'', Dated 20), (''eggs'', Dated 5), (CHR 0xE9 # ''clair'', Dated 7)],
        st_raw\<lparr>purchase_history_file :=
                 Json (HObject [(''milk'', Dated 20), (''eggs'', Dated 5),
                                (CHR 0xE9 # ''clair'', Dated 7)]),
               written := [PurchaseHistoryFile]\<rparr>)
   \<and> (\<exists>h. load_purchase_history st_raw =
              (Inr h, st_raw\<lparr>purchase_history_file := Json (HObject h),
                             written := written st_raw @ [PurchaseHistoryFile]\<rparr>)
         \<and> fst ` set h = (\<lambda>kv. lower (fst kv)) ` set raw_history
         \<and> distinct (map fst h)
         \<and> distinct (map (\<lambda>kv. lower (fst kv)) h)
         \<and> (\<forall>k e. dict_get h k = Some e \<longrightarrow>
               (\<exists>d. e = Dated d
                  \<and> (\<exists>kv\<in>set raw_history. lower (fst kv) = k \<and> snd kv = Dated d)
                  \<and> (\<forall>kv\<in>set raw_history. \<forall>d'. lower (fst kv) = k \<and> snd kv = Dated d'
                        \<longrightarrow> d' \<le> d))))
   \<and> purchase_history_file (st_empty\<lparr>purchase_history_file := Corrupt\<rparr>) = Corrupt
   \<and> load_purchase_history (st_empty\<lparr>purchase_history_file := Corrupt\<rparr>)
       = (Inr [], st_empty\<lparr>purchase_history_file := Corrupt\<rparr>)"
proof -
  have f: "purchase_history_file st_raw = Json (HObject raw_history)"
    by code_simp
  have a: "all_dated raw_history"
    by code_simp
  have l: "load_purchase_history st_raw =
       (Inr [(''milk'', Dated 20), (''eggs'', Dated 5), (CHR 0xE9 # ''clair'', Dated 7)],
        st_raw\<lparr>purchase_history_file :=
                 Json (HObject [(''milk'', Dated 20), (''eggs'', Dated 5),
                                (CHR 0xE9 # ''clair'', Dated 7)]),
               written := [PurchaseHistoryFile]\<rparr>)"
    by code_simp
  note x = load_purchase_history_spec [of st_raw raw_history, THEN conjunct1, THEN mp,
      OF conjI [OF f a]]
  have c: "purchase_history_file (st_empty\<lparr>purchase_history_file := Corrupt\<rparr>) = Corrupt"
    by simp
  note y = load_purchase_history_spec [of "st_empty\<lparr>purchase_history_file := Corrupt\<rparr>",
      THEN conjunct2, THEN conjunct2, THEN mp, OF disjI2 [OF c]]
  show ?thesis by (intro conjI) (fact f, fact a, fact l, fact x, fact c, fact y)
qed

text \<open>
  The claim as worded holds of every content of the history file. On text that is not
  JSON the load returns the empty map and does not write it back; on a map with two keys
  of the same lower-cased name, one of them with a date string that does not parse, it
  returns nothing and writes nothing, the \<open>ValueError\<close> of the parse leaves it.
\<close>

theorem load_purchase_history_counterexample:
  "load_purchase_history (st_empty\<lparr>purchase_history_file := Corrupt\<rparr>)
     = (Inr [], st_empty\<lparr>purchase_history_file := Corrupt\<rparr>)
   \<and> written (snd (load_purchase_history (st_empty\<lparr>purchase_history_file := Corrupt\<rparr>))) = []
   \<and> purchase_history_file
        (snd (load_purchase_history (st_empty\<lparr>purchase_history_file := Corrupt\<rparr>)))
       \<noteq> Json (HObject [])
   \<and> load_purchase_history
        (st_empty\<lparr>purchase_history_file :=
                    Json (HObject [(''Milk'', BadDate), (''milk'', Dated 5)])\<rparr>)
       = (Inl ValueError,
          st_empty\<lparr>purchase_history_file :=
                      Json (HObject [(''Milk'', BadDate), (''milk'', Dated 5)])\<rparr>)"
  by code_simp

text \<open>
  Claim C6. The list load and the history load return the empty collection for a missing
  file and for text that is not JSON. The catalog load does so for a missing file only:
  on text that is not JSON the decoder's \<open>JSONDecodeError\<close> is not caught and reaches the
  caller. Text that is JSON but does not have the shape of the collection is caught by
  none of the loads where it raises: a list element that is no valid item, a history
  that is no object, two history keys of one lower-cased name with an unreadable date.
\<close>

theorem load_categories_corrupt_raises:
  "load_categories (st\<lparr>categories_file := Corrupt\<rparr>)
     = (Inl JSONDecodeError, st\<lparr>categories_file := Corrupt\<rparr>)
   \<and> load_categories (st\<lparr>categories_file := Absent\<rparr>) = (Inr [], st\<lparr>categories_file := Absent\<rparr>)
   \<and> load_grocery_list (st\<lparr>grocery_list_file := Corrupt\<rparr>)
       = (Inr (), st\<lparr>grocery_list_file := Corrupt, items := []\<rparr>)
   \<and> load_grocery_list (st\<lparr>grocery_list_file := Absent\<rparr>)
       = (Inr (), st\<lparr>grocery_list_file := Absent, items := []\<rparr>)
   \<and> load_purchase_history (st\<lparr>purchase_history_file := Corrupt\<rparr>)
       = (Inr [], st\<lparr>purchase_history_file := Corrupt\<rparr>)
   \<and> load_purchase_history (st\<lparr>purchase_history_file := Absent\<rparr>)
       = (Inr [], st\<lparr>purchase_history_file := Absent\<rparr>)
   \<and> fst (load_grocery_list (st\<lparr>grocery_list_file := Json (LArray [ItemInvalid])\<rparr>))
       = Inl ValidationError
   \<and> fst (load_grocery_list (st\<lparr>grocery_list_file := Json LOther\<rparr>)) = Inl TypeError
   \<and> fst (load_purchase_history (st\<lparr>purchase_history_file := Json HOther\<rparr>))
       = Inl AttributeError
   \<and> fst (load_purchase_history
            (st\<lparr>purchase_history_file := Json (HObject [(k, BadDate), (k, Dated d)])\<rparr>))
       = Inl ValueError"
  by (simp add: load_categories_def load_grocery_list_def load_purchase_history_def json_load_def
        normalize_step_def dict_get_def last_purchase_date_def)

section \<open>Chat dispatcher: claims\<close>

text \<open>
  Claim C7. The branch \<open>get_reply\<close> takes is the first row of the priority table add,
  remove, expiring, suggestions, list, clear-list, purchase, greeting with a keyword
  that occurs in the lower-cased message, and \<open>get_reply\<close> runs the handler of that row.
  When no keyword occurs the reply is "Sorry, I don't understand." with no refresh and
  no change of state. A message that contains "add" is handled by the add handler, also
  when it contains "list".
\<close>

theorem get_reply_dispatch:
  "select_branch (lower msg) = first_match spec_priority (lower msg)
   \<and> get_reply today re_add re_remove msg st =
       (case first_match spec_priority (lower msg) of
          BAdd \<Rightarrow> Inr (handle_add re_add (lower msg) st)
        | BRemove \<Rightarrow> Inr (handle_remove re_remove (lower msg) st)
        | BExpiring \<Rightarrow> Inr (handle_expiring today (lower msg) st)
        | BSuggestions \<Rightarrow> handle_suggestions today (lower msg) st
        | BList \<Rightarrow> Inr (handle_list (lower msg) st)
        | BClear \<Rightarrow> Inr (handle_clear today (lower msg) st)
        | BPurchase \<Rightarrow> Inr (handle_purchase today (lower msg) st)
        | BGreeting \<Rightarrow>
            Inr ((''Hello! How can I help you with your groceries today?'', False), st)
        | BNone \<Rightarrow> Inr ((''Sorry, I don't understand.'', False), st))
   \<and> (contains msg ''add'' \<and> contains msg ''list'' \<longrightarrow>
        first_match spec_priority (lower msg) = BAdd
        \<and> get_reply today re_add re_remove msg st = Inr (handle_add re_add (lower msg) st))
   \<and> (\<not> list_ex (\<lambda>row. list_ex (contains (lower msg)) (fst row)) spec_priority \<longrightarrow>
        get_reply today re_add re_remove msg st
          = Inr ((''Sorry, I don't understand.'', False), st))"
proof -
  have run: "get_reply today re_add re_remove msg st =
       (case first_match spec_priority (lower msg) of
          BAdd \<Rightarrow> Inr (handle_add re_add (lower msg) st)
        | BRemove \<Rightarrow> Inr (handle_remove re_remove (lower msg) st)
        | BExpiring \<Rightarrow> Inr (handle_expiring today (lower msg) st)
        | BSuggestions \<Rightarrow> handle_suggestions today (lower msg) st
        | BList \<Rightarrow> Inr (handle_list (lower msg) st)
        | BClear \<Rightarrow> Inr (handle_clear today (lower msg) st)
        | BPurchase \<Rightarrow> Inr (handle_purchase today (lower msg) st)
        | BGreeting \<Rightarrow>
            Inr ((''Hello! How can I help you with your groceries today?'', False), st)
        | BNone \<Rightarrow> Inr ((''Sorry, I don't understand.'', False), st))"
    by (simp add: get_reply_def Let_def select_branch_first_match)
  have la: "lower ''add'' = ''add''" by code_simp
  have add: "first_match spec_priority (lower msg) = BAdd" if "contains msg ''add''"
  proof -
    have "contains (lower msg) ''add''" using contains_lower [OF that] la by simp
    then have "select_branch (lower msg) = BAdd" by (simp add: select_branch_def)
    then show ?thesis by (simp add: select_branch_first_match)
  qed
  have none: "first_match spec_priority (lower msg) = BNone"
    if "\<not> list_ex (\<lambda>row. list_ex (contains (lower msg)) (fst row)) spec_priority"
  proof -
    have "find (\<lambda>row. list_ex (contains (lower msg)) (fst row)) spec_priority = None"
      using that by (auto simp: find_None_iff list_ex_iff)
    then show ?thesis by (simp add: first_match_def)
  qed
  show ?thesis
    using add none by (simp add: run select_branch_first_match)
qed

theorem get_reply_dispatch_witness:
  "contains ''add milk to my list'' ''add'' \<and> contains ''add milk to my list'' ''list''
   \<and> get_reply 100 no_unit_match no_name_match ''add milk to my list'' st_empty
       = Inr (handle_add no_unit_match ''add milk to my list'' st_empty)
   \<and> \<not> list_ex (\<lambda>row. list_ex (contains (lower ''Good morning'')) (fst row)) spec_priority
   \<and> get_reply 100 no_unit_match no_name_match ''Good morning'' st_empty
       = Inr ((''Sorry, I don't understand.'', False), st_empty)"
proof -
  have c: "contains ''add milk to my list'' ''add''" "contains ''add milk to my list'' ''list''"
    by code_simp+
  have l: "lower ''add milk to my list'' = ''add milk to my list''" by code_simp
  have n: "\<not> list_ex (\<lambda>row. list_ex (contains (lower ''Good morning'')) (fst row)) spec_priority"
    by code_simp
  have a: "get_reply 100 no_unit_match no_name_match ''add milk to my list'' st_empty
       = Inr (handle_add no_unit_match (lower ''add milk to my list'') st_empty)"
    using get_reply_dispatch [of "''add milk to my list''" 100 no_unit_match no_name_match st_empty] c
    by blast
  have b: "get_reply 100 no_unit_match no_name_match ''Good morning'' st_empty
       = Inr ((''Sorry, I don't understand.'', False), st_empty)"
    using get_reply_dispatch [of "''Good morning''" 100 no_unit_match no_name_match st_empty] n
    by blast
  show ?thesis
    using a b c l n by simp
qed

text \<open>
  Claim C10, as the code has it. No message takes the clear-list branch of \<open>get_reply\<close>:
  a lower-cased message that contains "clear list" contains "list", so it takes the list
  branch or one of the four branches tested before it (add, remove, expiring,
  suggestions). When none of those four keywords occurs, the reply is the list display
  and the state, grocery list and history included, is unchanged; so it is for the
  message "clear list" itself.
\<close>

theorem clear_list_unreachable:
  "select_branch (lower msg) \<noteq> BClear
   \<and> (contains (lower msg) ''clear list'' \<longrightarrow>
        contains (lower msg) ''list''
        \<and> select_branch (lower msg) \<in> {BAdd, BRemove, BExpiring, BSuggestions, BList})
   \<and> (contains (lower msg) ''clear list'' \<and> \<not> contains (lower msg) ''add''
        \<and> \<not> contains (lower msg) ''remove'' \<and> \<not> contains (lower msg) ''expiring''
        \<and> \<not> contains (lower msg) ''suggestions'' \<longrightarrow>
        select_branch (lower msg) = BList
        \<and> get_reply today re_add re_remove msg st = Inr ((get_list st, False), st))
   \<and> get_reply today re_add re_remove ''clear list'' st = Inr ((get_list st, False), st)"
proof -
  have l: "contains (lower msg) ''list''" if "contains (lower msg) ''clear list''"
    using that by (rule contains_clear_list)
  have b: "select_branch (lower msg) \<in> {BAdd, BRemove, BExpiring, BSuggestions, BList}"
    if "contains (lower msg) ''list''"
    using that by (simp add: select_branch_def)
  have s: "select_branch (lower msg) = BList"
    if "contains (lower msg) ''list''" "\<not> contains (lower msg) ''add''"
      "\<not> contains (lower msg) ''remove''" "\<not> contains (lower msg) ''expiring''"
      "\<not> contains (lower msg) ''suggestions''"
    using that by (simp add: select_branch_def)
  have g: "get_reply today re_add re_remove msg st = Inr ((get_list st, False), st)"
    if "select_branch (lower msg) = BList"
    using that by (simp add: get_reply_def handle_list_def)
  have c: "select_branch (lower ''clear list'') = BList" by code_simp
  have e: "get_reply today re_add re_remove ''clear list'' st = Inr ((get_list st, False), st)"
    using c by (simp add: get_reply_def handle_list_def)
  show ?thesis
    using select_branch_not_clear [of "lower msg"] l b s g e by blast
qed

theorem clear_list_unreachable_witness:
  "contains (lower ''Please CLEAR LIST now'') ''clear list''
   \<and> \<not> contains (lower ''Please CLEAR LIST now'') ''add''
   \<and> \<not> contains (lower ''Please CLEAR LIST now'') ''remove''
   \<and> \<not> contains (lower ''Please CLEAR LIST now'') ''expiring''
   \<and> \<not> contains (lower ''Please CLEAR LIST now'') ''suggestions''
   \<and> select_branch (lower ''Please CLEAR LIST now'') = BList
   \<and> get_reply 100 no_unit_match no_name_match ''Please CLEAR LIST now'' st_milk
       = Inr ((get_list st_milk, False), st_milk)"
proof -
  have c: "contains (lower ''Please CLEAR LIST now'') ''clear list''"
    "\<not> contains (lower ''Please CLEAR LIST now'') ''add''"
    "\<not> contains (lower ''Please CLEAR LIST now'') ''remove''"
    "\<not> contains (lower ''Please CLEAR LIST now'') ''expiring''"
    "\<not> contains (lower ''Please CLEAR LIST now'') ''suggestions''"
    by code_simp+
  show ?thesis
    using clear_list_unreachable [of "''Please CLEAR LIST now''" 100 no_unit_match no_name_match st_milk] c
    by blast
qed

text \<open>
  The claim as worded sends every message that contains "clear list" to the list display.
  The message "add clear list" contains it and takes the add branch: the list grows by an
  item instead of being displayed.
\<close>

theorem clear_list_counterexample:
  "contains (lower ''add clear list'') ''clear list''
   \<and> select_branch (lower ''add clear list'') = BAdd
   \<and> select_branch (lower ''add clear list'') \<noteq> BList
   \<and> get_reply 100 no_unit_match no_name_match ''add clear list'' st_empty
       \<noteq> Inr (handle_list (lower ''add clear list'') st_empty)"
  by code_simp

text \<open>
  Claim C9, as the code has it. The \<open>Product\<close> model gives \<open>unit\<close> no default: a product
  built without a unit has the unit \<open>None\<close>. The default "pcs" is the chat add handler's:
  when the phrase yields no unit, the item it stores has the unit "pcs", and a unit the
  phrase does yield is stored as it is.
\<close>

theorem handle_add_default_unit:
  "unit (Product n) = None
   \<and> (re_add message = Some m \<and> group_unit m = None \<longrightarrow>
        handle_add re_add message st =
          ((''I've added '' @ strip (group_name m) @ '' to your list.'', True),
           snd (add_item_to_list
                  \<lparr>name = strip (group_name m), quantity = None, unit = Some ''pcs'',
                   category = group_category m, purchase_date = None, expiry_date = None\<rparr> st))
        \<and> unit (last (items (snd (handle_add re_add message st)))) = Some ''pcs'')
   \<and> (re_add message = Some m \<and> group_unit m = Some u \<and> u \<noteq> [] \<longrightarrow>
        unit (last (items (snd (handle_add re_add message st)))) = Some u)"
  by (simp add: handle_add_def Product_def str_or_def add_item_to_list_def save_grocery_list_def
        Let_def)

theorem handle_add_default_unit_witness:
  "no_unit_match ''add  milk'' =
     Some \<lparr>group_quantity = None, group_unit = None, group_name = ''milk'',
           group_category = None\<rparr>
   \<and> items (snd (handle_add no_unit_match ''add  milk'' st_empty)) =
       [\<lparr>name = ''milk'', quantity = None, unit = Some ''pcs'', category = None,
         purchase_date = None, expiry_date = None\<rparr>]
   \<and> unit (last (items (snd (handle_add no_unit_match ''add  milk'' st_empty)))) = Some ''pcs''"
proof -
  have m: "no_unit_match ''add  milk'' =
     Some \<lparr>group_quantity = None, group_unit = None, group_name = ''milk'',
           group_category = None\<rparr>"
    by (simp add: no_unit_match_def)
  have i: "items (snd (handle_add no_unit_match ''add  milk'' st_empty)) =
       [\<lparr>name = ''milk'', quantity = None, unit = Some ''pcs'', category = None,
         purchase_date = None, expiry_date = None\<rparr>]"
    by code_simp
  show ?thesis
    using handle_add_default_unit [of "''milk''" no_unit_match "''add  milk''"
        "\<lparr>group_quantity = None, group_unit = None, group_name = ''milk'',
          group_category = None\<rparr>" st_empty] m i
    by simp
qed

text \<open>
  The claim as worded gives every item created without a unit the unit "pcs". A product
  built from the model with a name only, and stored by \<open>add_item_to_list\<close>, has none.
\<close>

theorem product_unit_counterexample:
  "unit (Product ''Milk'') = None
   \<and> unit (Product ''Milk'') \<noteq> Some ''pcs''
   \<and> map unit (get_grocery_list (snd (add_item_to_list (Product ''Milk'') st_empty))) = [None]"
  by code_simp

end
